theory Spec2Isabelle
  imports Main "HOL-Library.Word"
begin

section \<open>The connection layer of the event store client (eventstore/connection.go)\<close>

text \<open>
  The file under verification is one Go source file. Its functions mutate an
  \<^verbatim>\<open>*EventStoreConnection\<close>, talk to a socket, to channels and to a frame codec, and
  start goroutines. The embedding makes all of that explicit:
  \<^item> every function takes the connection and returns the updated connection;
  \<^item> every externally visible action (a dial attempt, a sleep, a socket close or write,
    a channel send, a \<^verbatim>\<open>go\<close> statement, a call of the discoverer) and every write
    to the requests table is appended, in program order, to the trace of the world;
  \<^item> what the environment answers (dial outcome, socket errors, generated ids) is read
    from oracles indexed by a clock that advances at every such call, so that two calls
    with the same arguments may be answered differently;
  \<^item> a panic, a deadlock on the mutex and \<^verbatim>\<open>log.Fatal\<close> (which ends the process) are
    \<open>Inl\<close> results; Go's \<^verbatim>\<open>error\<close> return values are \<open>error option\<close> results.
  Diagnostics written with \<^verbatim>\<open>log.Printf\<close> are not part of the model. A channel send is
  recorded when it is issued; whether a receiver ever takes the value is up to the
  other goroutines.
\<close>

subsection \<open>Data\<close>

type_synonym byte = "8 word"
type_synonym bytes = "byte list"

text \<open>\<^verbatim>\<open>uuid.UUID\<close> is a 16 byte array of the uuid library.\<close>

datatype uuid = UUID bytes

text \<open>
  A value of type \<^verbatim>\<open>chan<- TCPPackage\<close>: \<open>Chan n\<close> was made by a caller, \<open>MadeChan t\<close> by
  the \<^verbatim>\<open>make\<close> the reader executed at clock \<open>t\<close>.
\<close>

datatype chan = Chan nat | MadeChan nat

type_synonym socket = nat

text \<open>
  The command codes are constants declared outside this file. The reader switches on
  them, so the ones it names are pairwise different and different from \<^verbatim>\<open>0x0F\<close>
  (Go rejects duplicate constants in a switch); every other code is \<open>otherCommand\<close>.
\<close>

datatype Command =
    heartbeatRequest | heartbeatResponse | ping | pong
  | writeEventsCompleted | readEventCompleted | deleteStreamCompleted
  | readStreamEventsForwardCompleted | readStreamEventsBackwardCompleted
  | subscriptionConfirmation | streamEventAppeared
  | createPersistentSubscriptionCompleted | persistentSubscriptionConfirmation
  | notAuthenticated | subscriptionDropped | command_0x0F | otherCommand byte

text \<open>
  Modelled from the spec: \<^verbatim>\<open>TCPPackage\<close> is declared outside this file. This file reads
  its fields \<^verbatim>\<open>Command\<close> and \<^verbatim>\<open>CorrelationID\<close> (a byte slice); the spec's frame also has
  a payload and optional credentials.
\<close>

record TCPPackage =
  Command :: Command
  CorrelationID :: bytes
  Data :: bytes
  pkg_Login :: string
  pkg_Password :: string

datatype error =
    AddressEmpty string
  | PortNotPositive int
  | ResolveFailed string int
  | ConnectFailed string int string
  | RetryLimitReached int
  | ExternalError string

text \<open>
  \<^verbatim>\<open>EndpointDiscoverer\<close> is an interface declared outside this file; only its method
  \<^verbatim>\<open>Discover\<close> is called here, and of the result only the fields \<^verbatim>\<open>ExternalTCPIP\<close> and
  \<^verbatim>\<open>ExternalTCPPort\<close> are read. A discoverer is the sequence of its answers.
\<close>

record MemberInfo =
  ExternalTCPIP :: string
  ExternalTCPPort :: int

datatype Discoverer = Discoverer (Discover: "nat \<Rightarrow> MemberInfo \<times> error option")

text \<open>\<^verbatim>\<open>int\<close> fields are unbounded integers here; Go's \<^verbatim>\<open>int\<close> values are among them.\<close>

record Configuration =
  Address :: string
  Port :: int
  Login :: string
  Password :: string
  ReconnectionDelay :: int
  MaxReconnects :: int
  MaxOperationRetries :: int
  EndpointDiscoverer :: "Discoverer option"

text \<open>
  \<^verbatim>\<open>Subscription\<close> is declared outside this file; \<^verbatim>\<open>closeConnection\<close> reads its fields
  \<^verbatim>\<open>CorrelationID\<close> and \<^verbatim>\<open>Channel\<close>.
\<close>

record Subscription =
  sub_CorrelationID :: uuid
  Channel :: chan

text \<open>
  The two tables are Go maps: \<open>None\<close> is the nil map a connection has before \<^verbatim>\<open>Connect\<close>
  (a lookup in it finds nothing, ranging over it visits nothing, a store into it panics).
  The subscriptions are kept as the list of entries in the order in which
  \<^verbatim>\<open>range\<close> visits them, which Go leaves open. \<open>Mutex\<close> is \<open>True\<close> while the lock is held.
\<close>

record EventStoreConnection =
  Config :: Configuration
  Socket :: "socket option"
  connected :: bool
  requests :: "(uuid \<rightharpoonup> chan) option"
  subscriptions :: "(uuid \<times> Subscription) list option"
  ConnectionID :: uuid
  Mutex :: bool

subsection \<open>Effects\<close>

datatype task = Run_readFromSocket | Run_sendPackage TCPPackage chan

datatype event =
    ConnectAttempt string int
  | Sleep int
  | DiscoverCall
  | SocketClose socket
  | SocketWrite TCPPackage
  | ChanSend chan TCPPackage
  | Go task
  | StoreRequest uuid chan
  | ResetTables

record world =
  clock :: nat
  trace :: "event list"

definition tick :: "world \<Rightarrow> world" where
  "tick w = w\<lparr>clock := Suc (clock w)\<rparr>"

definition emit :: "event \<Rightarrow> world \<Rightarrow> world" where
  "emit e w = w\<lparr>trace := trace w @ [e]\<rparr>"

datatype abort = NilMapStore | NilSocket | Deadlock | FatalExit

type_synonym 'a result = "(abort \<times> world) + 'a"

datatype dial_result = ResolveError | DialError string | Dialed socket

text \<open>
  What this file calls and does not define. The codec (\<^verbatim>\<open>newPackage\<close>, \<^verbatim>\<open>parsePackage\<close>,
  \<^verbatim>\<open>proto.Marshal\<close> of the one message \<^verbatim>\<open>closeConnection\<close> builds) and the uuid library
  are functions; Go returns a value together with the error, and the callers here
  go on with the value in several places, so both are kept. The network answers by
  the clock.
\<close>

record env =
  uuid_FromBytes :: "bytes \<Rightarrow> uuid"
  uuid_Bytes :: "uuid \<Rightarrow> bytes"
  uuid_NewV4 :: "nat \<Rightarrow> uuid"
  newPackage :: "Command \<Rightarrow> bytes \<Rightarrow> bytes \<Rightarrow> string \<Rightarrow> string \<Rightarrow> TCPPackage \<times> error option"
  parsePackage :: "bytes \<Rightarrow> TCPPackage \<times> error option"
  proto_Marshal :: "bytes \<times> error option"
  dial :: "nat \<Rightarrow> string \<Rightarrow> int \<Rightarrow> dial_result"
  socket_Close :: "nat \<Rightarrow> error option"
  socket_Write :: "nat \<Rightarrow> error option"

subsection \<open>NewConfiguration, NewEventStoreConnection\<close>

definition NewConfiguration :: Configuration where
  "NewConfiguration =
     \<lparr>Address = '''', Port = 0, Login = '''', Password = '''',
      ReconnectionDelay = 10000, MaxReconnects = 10, MaxOperationRetries = 10,
      EndpointDiscoverer = None\<rparr>"

definition NewEventStoreConnection ::
  "env \<Rightarrow> world \<Rightarrow> Configuration \<Rightarrow> world \<times> (error + EventStoreConnection)" where
  "NewEventStoreConnection e w config =
     (if EndpointDiscoverer config = None \<and> length (Address config) = 0
        then (w, Inl (AddressEmpty (Address config)))
      else if EndpointDiscoverer config = None \<and> Port config \<le> 0
        then (w, Inl (PortNotPositive (Port config)))
      else (tick w,
            Inr \<lparr>Config = config, Socket = None, connected = False,
                 requests = None, subscriptions = None,
                 ConnectionID = uuid_NewV4 e (clock w), Mutex = False\<rparr>))"

subsection \<open>closeConnection\<close>

text \<open>
  The loop over the tracked subscriptions. \<^verbatim>\<open>newPackage\<close> may report an error; the code
  logs it and sends the returned package all the same.
\<close>

definition dropNotification :: "env \<Rightarrow> EventStoreConnection \<Rightarrow> bytes \<Rightarrow> Subscription \<Rightarrow> TCPPackage" where
  "dropNotification e connection data sub =
     fst (newPackage e subscriptionDropped data (uuid_Bytes e (sub_CorrelationID sub))
            (Login (Config connection)) (Password (Config connection)))"

primrec dropSubscriptions ::
  "env \<Rightarrow> EventStoreConnection \<Rightarrow> bytes \<Rightarrow> (uuid \<times> Subscription) list \<Rightarrow> world \<Rightarrow> world" where
  "dropSubscriptions e connection data [] w = w"
| "dropSubscriptions e connection data (entry # rest) w =
     dropSubscriptions e connection data rest
       (emit (ChanSend (Channel (snd entry)) (dropNotification e connection data (snd entry))) w)"

definition tracked :: "EventStoreConnection \<Rightarrow> (uuid \<times> Subscription) list" where
  "tracked connection = (case subscriptions connection of None \<Rightarrow> [] | Some subs \<Rightarrow> subs)"

definition closeConnection ::
  "env \<Rightarrow> world \<Rightarrow> EventStoreConnection \<Rightarrow> (world \<times> EventStoreConnection) result" where
  "closeConnection e w connection =
     (case proto_Marshal e of
        (data, Some err) \<Rightarrow> Inl (FatalExit, w)
      | (data, None) \<Rightarrow>
          Inr (emit ResetTables (dropSubscriptions e connection data (tracked connection) w),
               connection\<lparr>requests := Some Map.empty, subscriptions := Some []\<rparr>))"

subsection \<open>Close\<close>

definition Close ::
  "env \<Rightarrow> world \<Rightarrow> EventStoreConnection \<Rightarrow> (world \<times> EventStoreConnection \<times> error option) result" where
  "Close e w connection =
     (if Mutex connection then Inl (Deadlock, w)
      else
        let connection1 = connection\<lparr>connected := False\<rparr> in
        case Socket connection1 of
          None \<Rightarrow> Inl (NilSocket, w)
        | Some s \<Rightarrow>
            let err = socket_Close e (clock w);
                w1 = tick (emit (SocketClose s) w);
                connection2 = connection1\<lparr>Socket := None\<rparr>
            in (case closeConnection e w1 connection2 of
                  Inl a \<Rightarrow> Inl a
                | Inr (w2, connection3) \<Rightarrow> Inr (w2, connection3, err)))"

subsection \<open>connect, connectWithRetries, Connect\<close>

definition connect ::
  "env \<Rightarrow> world \<Rightarrow> EventStoreConnection \<Rightarrow> world \<times> EventStoreConnection \<times> error option" where
  "connect e w connection =
     (let address = Address (Config connection);
          port = Port (Config connection);
          w1 = tick (emit (ConnectAttempt address port) w)
      in case dial e (clock w) address port of
           ResolveError \<Rightarrow> (w1, connection, Some (ResolveFailed address port))
         | DialError details \<Rightarrow> (w1, connection, Some (ConnectFailed address port details))
         | Dialed conn \<Rightarrow>
             (emit (Go Run_readFromSocket) w1,
              connection\<lparr>Socket := Some conn, connected := True\<rparr>, None))"

text \<open>
  \<^verbatim>\<open>time.Sleep(time.Duration(d) * time.Millisecond)\<close>: a \<^verbatim>\<open>Duration\<close> is a signed 64 bit
  count of nanoseconds, and the product wraps.
\<close>

definition sleepDuration :: "int \<Rightarrow> int" where
  "sleepDuration d = sint ((word_of_int d :: 64 word) * 1000000)"

definition setEndpoint :: "MemberInfo \<Rightarrow> EventStoreConnection \<Rightarrow> EventStoreConnection" where
  "setEndpoint memberInfo connection =
     connection\<lparr>Config := (Config connection)
       \<lparr>Address := ExternalTCPIP memberInfo, Port := ExternalTCPPort memberInfo\<rparr>\<rparr>"

text \<open>Lines 90 to 97: the discovery that opens every call; its error ends the call.\<close>

definition discoverFirst ::
  "world \<Rightarrow> EventStoreConnection \<Rightarrow> world \<times> (error + EventStoreConnection)" where
  "discoverFirst w connection =
     (case EndpointDiscoverer (Config connection) of
        None \<Rightarrow> (w, Inr connection)
      | Some d \<Rightarrow>
          (case Discover d (clock w) of
             (memberInfo, Some err) \<Rightarrow> (tick (emit DiscoverCall w), Inl err)
           | (memberInfo, None) \<Rightarrow>
               (tick (emit DiscoverCall w), Inr (setEndpoint memberInfo connection))))"

text \<open>Lines 104 to 109: the discovery after a failed attempt; its error is discarded.\<close>

definition discoverAgain :: "world \<Rightarrow> EventStoreConnection \<Rightarrow> world \<times> EventStoreConnection" where
  "discoverAgain w connection =
     (case EndpointDiscoverer (Config connection) of
        None \<Rightarrow> (w, connection)
      | Some d \<Rightarrow>
          (tick (emit DiscoverCall w), setEndpoint (fst (Discover d (clock w))) connection))"

function connectWithRetries ::
  "env \<Rightarrow> world \<Rightarrow> EventStoreConnection \<Rightarrow> int
     \<Rightarrow> (world \<times> EventStoreConnection \<times> error option) result" where
  "connectWithRetries e w connection retryAttempts =
     (case discoverFirst w connection of
        (w1, Inl err) \<Rightarrow> Inr (w1, connection, Some err)
      | (w1, Inr connection1) \<Rightarrow>
          if retryAttempts > 0 then
            (case connect e w1 connection1 of
               (w2, connection2, Some err) \<Rightarrow>
                 (case discoverAgain
                         (emit (Sleep (sleepDuration (ReconnectionDelay (Config connection2)))) w2)
                         connection2 of
                    (w3, connection3) \<Rightarrow> connectWithRetries e w3 connection3 (retryAttempts - 1))
             | (w2, connection2, None) \<Rightarrow> Inr (w2, connection2, None))
          else
            (case closeConnection e w1 connection1 of
               Inl a \<Rightarrow> Inl a
             | Inr (w2, connection2) \<Rightarrow>
                 Inr (w2, connection2,
                      Some (RetryLimitReached (MaxReconnects (Config connection2))))))"
  by pat_completeness auto
termination
  by (relation "measure (\<lambda>(e, w, connection, retryAttempts). nat retryAttempts)") auto

text \<open>The equation unfolds itself; it is applied by hand, one call at a time.\<close>

declare connectWithRetries.simps [simp del]

definition Connect ::
  "env \<Rightarrow> world \<Rightarrow> EventStoreConnection
     \<Rightarrow> (world \<times> EventStoreConnection \<times> error option) result" where
  "Connect e w connection =
     connectWithRetries e (emit ResetTables w)
       (connection\<lparr>requests := Some Map.empty, subscriptions := Some []\<rparr>)
       (MaxReconnects (Config connection))"

subsection \<open>sendPackage\<close>

text \<open>
  Modelled from the spec: \<^verbatim>\<open>pkg.write(connection)\<close> is a method declared outside this
  file; by the spec it writes the frame to the socket, and the socket answers.
\<close>

definition pkg_write :: "env \<Rightarrow> world \<Rightarrow> TCPPackage \<Rightarrow> world \<times> error option" where
  "pkg_write e w pkg = (tick (emit (SocketWrite pkg) w), socket_Write e (clock w))"

definition sendPackage ::
  "env \<Rightarrow> world \<Rightarrow> EventStoreConnection \<Rightarrow> TCPPackage \<Rightarrow> chan
     \<Rightarrow> (world \<times> EventStoreConnection \<times> error option) result" where
  "sendPackage e w connection pkg channel =
     (let correlationID = uuid_FromBytes e (CorrelationID pkg) in
      case requests connection of
        None \<Rightarrow> Inl (NilMapStore, w)
      | Some table \<Rightarrow>
          (case pkg_write e (emit (StoreRequest correlationID channel) w) pkg of
             (w1, err) \<Rightarrow>
               Inr (w1, connection\<lparr>requests := Some (table(correlationID \<mapsto> channel))\<rparr>, err)))"

subsection \<open>readFromSocket\<close>

definition lookupRequest :: "EventStoreConnection \<Rightarrow> uuid \<Rightarrow> chan option" where
  "lookupRequest connection correlationID =
     (case requests connection of None \<Rightarrow> None | Some table \<Rightarrow> table correlationID)"

text \<open>Lines 208 to 211 and 214 to 217: the same three lines in both cases.\<close>

definition deliver ::
  "env \<Rightarrow> world \<Rightarrow> EventStoreConnection \<Rightarrow> TCPPackage \<Rightarrow> world \<times> EventStoreConnection" where
  "deliver e w connection msg =
     (let correlationID = uuid_FromBytes e (CorrelationID msg) in
      case lookupRequest connection correlationID of
        Some request \<Rightarrow> (emit (ChanSend request msg) w, connection)
      | None \<Rightarrow> (w, connection))"

text \<open>The switch on the command of a decoded frame, lines 190 to 221.\<close>

definition dispatch ::
  "env \<Rightarrow> world \<Rightarrow> EventStoreConnection \<Rightarrow> TCPPackage
     \<Rightarrow> (world \<times> EventStoreConnection) result" where
  "dispatch e w connection msg =
     (case Command msg of
        heartbeatRequest \<Rightarrow>
          (let pkg = fst (newPackage e heartbeatResponse [] (CorrelationID msg) '''' '''');
               channel = MadeChan (clock w)
           in Inr (emit (Go (Run_sendPackage pkg channel)) (tick w), connection))
      | pong \<Rightarrow>
          (let correlationID = uuid_NewV4 e (clock w);
               w1 = tick w;
               pkg = fst (newPackage e ping [] (uuid_Bytes e correlationID) '''' '''');
               channel = MadeChan (clock w1)
           in Inr (emit (Go (Run_sendPackage pkg channel)) (tick w1), connection))
      | writeEventsCompleted \<Rightarrow> Inr (deliver e w connection msg)
      | readEventCompleted \<Rightarrow> Inr (deliver e w connection msg)
      | deleteStreamCompleted \<Rightarrow> Inr (deliver e w connection msg)
      | readStreamEventsForwardCompleted \<Rightarrow> Inr (deliver e w connection msg)
      | readStreamEventsBackwardCompleted \<Rightarrow> Inr (deliver e w connection msg)
      | subscriptionConfirmation \<Rightarrow> Inr (deliver e w connection msg)
      | streamEventAppeared \<Rightarrow> Inr (deliver e w connection msg)
      | createPersistentSubscriptionCompleted \<Rightarrow> Inr (deliver e w connection msg)
      | persistentSubscriptionConfirmation \<Rightarrow> Inr (deliver e w connection msg)
      | notAuthenticated \<Rightarrow> Inr (deliver e w connection msg)
      | command_0x0F \<Rightarrow> Inl (FatalExit, w)
      | _ \<Rightarrow> Inr (w, connection))"

text \<open>
  What \<^verbatim>\<open>Socket.Read\<close> returns: an error with its message, or data, given here as the
  contents of the receive buffer after the read (the buffer is what \<^verbatim>\<open>parsePackage\<close>
  is called with).
\<close>

datatype read_result = ReadError string | ReadData bytes

text \<open>Lines 170 to 184: a read error. The result of \<^verbatim>\<open>Close\<close> is discarded.\<close>

definition readFailed ::
  "env \<Rightarrow> world \<Rightarrow> EventStoreConnection \<Rightarrow> string \<Rightarrow> (world \<times> EventStoreConnection) result" where
  "readFailed e w connection message =
     (if connected connection \<and> message \<noteq> ''EOF'' then Inl (FatalExit, w)
      else if message = ''EOF'' then
        (case Close e w connection of
           Inl a \<Rightarrow> Inl a
         | Inr (w1, connection1, closeErr) \<Rightarrow>
             (case connectWithRetries e w1 connection1 (MaxReconnects (Config connection1)) of
                Inl a \<Rightarrow> Inl a
              | Inr (w2, connection2, err) \<Rightarrow> Inr (w2, connection2)))
      else Inr (w, connection))"

text \<open>
  The loop, run on the results of the successive reads. When they are used up the
  reader is waiting in \<^verbatim>\<open>Read\<close>. Leaving the loop at line 166 keeps the mutex locked.
\<close>

fun readFromSocket ::
  "env \<Rightarrow> world \<Rightarrow> EventStoreConnection \<Rightarrow> read_result list
     \<Rightarrow> (world \<times> EventStoreConnection) result" where
  "readFromSocket e w connection reads =
     (if Mutex connection then Inl (Deadlock, w)
      else if connected connection = False then Inr (w, connection\<lparr>Mutex := True\<rparr>)
      else
        case Socket connection of
          None \<Rightarrow> Inl (NilSocket, w)
        | Some s \<Rightarrow>
            (case reads of
               [] \<Rightarrow> Inr (w, connection)
             | ReadError message # rest \<Rightarrow> readFailed e w connection message
             | ReadData buffer # rest \<Rightarrow>
                 (case parsePackage e buffer of
                    (msg, Some err) \<Rightarrow> Inl (FatalExit, w)
                  | (msg, None) \<Rightarrow>
                      (case dispatch e w connection msg of
                         Inl a \<Rightarrow> Inl a
                       | Inr (w1, connection1) \<Rightarrow> readFromSocket e w1 connection1 rest))))"

declare readFromSocket.simps [simp del]

subsection \<open>Reading a trace\<close>

text \<open>The events a call added: the trace after it, without the trace before it.\<close>

definition since :: "world \<Rightarrow> world \<Rightarrow> event list" where
  "since w w' = drop (length (trace w)) (trace w')"

fun isChanSend :: "event \<Rightarrow> bool" where
  "isChanSend (ChanSend channel pkg) = True"
| "isChanSend ev = False"

text \<open>The attempts and the sleeps of a trace, in order, without the addresses dialled.\<close>

datatype beat = Attempt | Wait int

fun beatOf :: "event \<Rightarrow> beat list" where
  "beatOf (ConnectAttempt address port) = [Attempt]"
| "beatOf (Sleep d) = [Wait d]"
| "beatOf ev = []"

definition beats :: "event list \<Rightarrow> beat list" where
  "beats evs = concat (map beatOf evs)"

text \<open>The send \<^verbatim>\<open>closeConnection\<close> issues for one entry of the subscriptions table.\<close>

definition dropEvent :: "env \<Rightarrow> EventStoreConnection \<Rightarrow> bytes \<Rightarrow> uuid \<times> Subscription \<Rightarrow> event" where
  "dropEvent e connection data entry =
     ChanSend (Channel (snd entry)) (dropNotification e connection data (snd entry))"

text \<open>
  The commands of the two cases of the switch that look the correlation id up
  (lines 207 and 213).
\<close>

definition deliverable :: "Command set" where
  "deliverable =
     {writeEventsCompleted, readEventCompleted, deleteStreamCompleted,
      readStreamEventsForwardCompleted, readStreamEventsBackwardCompleted,
      subscriptionConfirmation, streamEventAppeared,
      createPersistentSubscriptionCompleted, persistentSubscriptionConfirmation,
      notAuthenticated}"

fun isReadData :: "read_result \<Rightarrow> bool" where
  "isReadData (ReadData buffer) = True"
| "isReadData (ReadError message) = False"

text \<open>
  Two connections that differ at most in the address and the port of the configuration
  (which discovery overwrites), in the socket and in the \<open>connected\<close> flag.
\<close>

definition upToEndpoint :: "EventStoreConnection \<Rightarrow> EventStoreConnection \<Rightarrow> bool" where
  "upToEndpoint c c' \<longleftrightarrow>
     requests c' = requests c \<and> subscriptions c' = subscriptions c \<and> Mutex c' = Mutex c \<and>
     Login (Config c') = Login (Config c) \<and> Password (Config c') = Password (Config c) \<and>
     ReconnectionDelay (Config c') = ReconnectionDelay (Config c) \<and>
     MaxReconnects (Config c') = MaxReconnects (Config c) \<and>
     EndpointDiscoverer (Config c') = EndpointDiscoverer (Config c)"

subsection \<open>The codec as the spec describes it\<close>

text \<open>
  Modelled from the spec: \<^verbatim>\<open>newPackage\<close> is defined outside this file. The spec gives
  the codec as \<^verbatim>\<open>encode(command, payload, correlationId, login, password) -> (frame | error)\<close>
  and a frame as command code, correlation id, payload and optional credentials.
  \<open>frame\<close> is that frame, and \<open>encodes\<close> says that the codec at hand returns
  it, without an error, for the given arguments.
\<close>

definition frame :: "Command \<Rightarrow> bytes \<Rightarrow> bytes \<Rightarrow> string \<Rightarrow> string \<Rightarrow> TCPPackage" where
  "frame command data correlationID login password =
     \<lparr>Command = command, CorrelationID = correlationID, Data = data,
      pkg_Login = login, pkg_Password = password\<rparr>"

definition encodes :: "env \<Rightarrow> Command \<Rightarrow> bytes \<Rightarrow> bytes \<Rightarrow> string \<Rightarrow> string \<Rightarrow> bool" where
  "encodes e command data correlationID login password \<longleftrightarrow>
     newPackage e command data correlationID login password =
       (frame command data correlationID login password, None)"

subsection \<open>A concrete environment\<close>

text \<open>
  Modelled from the spec: one environment to run the definitions in, since the codec,
  the uuid library and the network are outside this file. The codec builds the frame
  of the spec, the uuid library copies 16 bytes
  (\<^verbatim>\<open>FromBytes\<close> gives the zero id for a slice that is not 16 bytes long), a decoder
  that reads the command from the first byte and the correlation id from the next
  16, a network that refuses every dial and a socket that closes and writes without
  error.
\<close>

definition zeroID :: uuid where
  "zeroID = UUID (replicate 16 0)"

definition refusingEnv :: env where
  "refusingEnv =
     \<lparr>uuid_FromBytes = (\<lambda>input. if length input = 16 then UUID input else zeroID),
      uuid_Bytes = (\<lambda>u. case u of UUID b \<Rightarrow> b),
      uuid_NewV4 = (\<lambda>t. UUID (replicate 16 (of_nat t))),
      newPackage = (\<lambda>command data correlationID login password.
                      (frame command data correlationID login password, None)),
      parsePackage = (\<lambda>buffer.
                        (frame (if hd (buffer @ [0]) = 177 then readEventCompleted
                                else otherCommand (hd (buffer @ [0])))
                           [] (take 16 (tl buffer)) [] [],
                         if length buffer < 17 then Some (ExternalError ''short frame'')
                         else None)),
      proto_Marshal = ([8, 0], None),
      dial = (\<lambda>t address port. DialError ''connection refused''),
      socket_Close = (\<lambda>t. None),
      socket_Write = (\<lambda>t. None)\<rparr>"

definition startWorld :: world where
  "startWorld = \<lparr>clock = 0, trace = []\<rparr>"

definition localConfig :: Configuration where
  "localConfig = NewConfiguration\<lparr>Address := ''127.0.0.1'', Port := 1113\<rparr>"

text \<open>
  A connected connection with one pending request (id \<open>idA\<close>, channel 1) and one
  tracked subscription (id \<open>idB\<close>, channel 2), limited to two attempts.
\<close>

definition idA :: bytes where
  "idA = replicate 16 7"

definition idB :: bytes where
  "idB = replicate 16 9"

definition liveConn :: EventStoreConnection where
  "liveConn =
     \<lparr>Config = localConfig\<lparr>Login := ''admin'', Password := ''changeit'', MaxReconnects := 2\<rparr>,
      Socket = Some 3, connected = True,
      requests = Some [UUID idA \<mapsto> Chan 1],
      subscriptions = Some [(UUID idB, \<lparr>sub_CorrelationID = UUID idB, Channel = Chan 2\<rparr>)],
      ConnectionID = zeroID, Mutex = False\<rparr>"

text \<open>A discoverer that finds no node, and a connection configured with it.\<close>

definition lostDiscoverer :: Discoverer where
  "lostDiscoverer =
     Discoverer (\<lambda>t. (\<lparr>ExternalTCPIP = [], ExternalTCPPort = 0\<rparr>,
                      Some (ExternalError ''no members'')))"

definition lostConn :: EventStoreConnection where
  "lostConn = liveConn\<lparr>Config := (Config liveConn)\<lparr>EndpointDiscoverer := Some lostDiscoverer\<rparr>,
                        Socket := None, connected := False\<rparr>"

section \<open>Properties\<close>

subsection \<open>The world and the drop loop\<close>

lemma clock_tick: "clock (tick w) = Suc (clock w)"
  by (simp add: tick_def)

lemma trace_tick: "trace (tick w) = trace w"
  by (simp add: tick_def)

lemma clock_emit: "clock (emit ev w) = clock w"
  by (simp add: emit_def)

lemma trace_emit: "trace (emit ev w) = trace w @ [ev]"
  by (simp add: emit_def)

lemma trace_dropSubscriptions:
  "trace (dropSubscriptions e c data subs w) = trace w @ map (dropEvent e c data) subs"
  by (induction subs arbitrary: w) (simp_all add: trace_emit dropEvent_def)

lemma clock_dropSubscriptions:
  "clock (dropSubscriptions e c data subs w) = clock w"
  by (induction subs arbitrary: w) (simp_all add: clock_emit)

lemma sleepDuration_in_range:
  assumes "0 \<le> d" and "d < 9223372036854"
  shows "sleepDuration d = d * 1000000"
proof -
  have "(word_of_int d :: 64 word) * 1000000 = word_of_int (d * 1000000)"
    by simp
  then have "sleepDuration d = signed_take_bit 63 (d * 1000000)"
    by (simp only: sleepDuration_def sint_sbintrunc') simp
  also have "\<dots> = d * 1000000"
    using assms by (intro signed_take_bit_int_eq_self) simp_all
  finally show ?thesis .
qed

subsection \<open>Connecting\<close>

lemma connect_failed:
  "connect e w c = (w2, c2, Some err) \<Longrightarrow>
     c2 = c \<and> clock w2 = Suc (clock w) \<and>
     trace w2 = trace w @ [ConnectAttempt (Address (Config c)) (Port (Config c))]"
  by (auto simp: connect_def Let_def tick_def emit_def split: dial_result.splits)

lemma connect_succeeded:
  "connect e w c = (w2, c2, None) \<Longrightarrow>
     (\<exists>s. c2 = c\<lparr>Socket := Some s, connected := True\<rparr>) \<and>
     trace w2 = trace w @ [ConnectAttempt (Address (Config c)) (Port (Config c)), Go Run_readFromSocket]"
  by (auto simp: connect_def Let_def tick_def emit_def split: dial_result.splits)

lemma discoverFirst_err:
  "discoverFirst w c = (w1, Inl err) \<Longrightarrow> trace w1 = trace w @ [DiscoverCall]"
  by (auto simp: discoverFirst_def tick_def emit_def split: option.splits prod.splits)

lemma upToEndpoint_refl: "upToEndpoint c c"
  by (simp add: upToEndpoint_def)

lemma upToEndpoint_setEndpoint: "upToEndpoint c c1 \<Longrightarrow> upToEndpoint c (setEndpoint m c1)"
  by (simp add: upToEndpoint_def setEndpoint_def)

lemma upToEndpoint_fields:
  assumes "upToEndpoint c c1"
  shows "requests c1 = requests c" "subscriptions c1 = subscriptions c"
    "tracked c1 = tracked c" "dropEvent e c1 data = dropEvent e c data"
    "MaxReconnects (Config c1) = MaxReconnects (Config c)"
    "ReconnectionDelay (Config c1) = ReconnectionDelay (Config c)"
    "EndpointDiscoverer (Config c1) = EndpointDiscoverer (Config c)"
    "Mutex c1 = Mutex c"
  using assms
  by (auto simp: upToEndpoint_def tracked_def dropEvent_def dropNotification_def fun_eq_iff)

lemma discoverFirst_Inr:
  "discoverFirst w c = (w1, Inr c1) \<Longrightarrow>
     (\<exists>evs. trace w1 = trace w @ evs \<and> set evs \<subseteq> {DiscoverCall}) \<and> upToEndpoint c c1"
  by (auto simp: discoverFirst_def tick_def emit_def upToEndpoint_refl
        upToEndpoint_setEndpoint split: option.splits prod.splits)

lemma discoverAgain_result:
  "discoverAgain w c = (w1, c1) \<Longrightarrow>
     (\<exists>evs. trace w1 = trace w @ evs \<and> set evs \<subseteq> {DiscoverCall}) \<and> upToEndpoint c c1"
  by (auto simp: discoverAgain_def tick_def emit_def upToEndpoint_refl
        upToEndpoint_setEndpoint split: option.splits prod.splits)

lemma upToEndpoint_trans: "upToEndpoint a b \<Longrightarrow> upToEndpoint b c \<Longrightarrow> upToEndpoint a c"
  by (auto simp: upToEndpoint_def)

lemma beats_append: "beats (xs @ ys) = beats xs @ beats ys"
  by (simp add: beats_def)

lemma beats_Nil: "beats [] = []"
  by (simp add: beats_def)

lemma beats_Cons: "beats (ev # evs) = beatOf ev @ beats evs"
  by (simp add: beats_def)

lemma beats_discover: "set evs \<subseteq> {DiscoverCall} \<Longrightarrow> beats evs = []"
  by (induction evs) (auto simp: beats_def)

lemma chanSends_discover: "set evs \<subseteq> {DiscoverCall} \<Longrightarrow> filter isChanSend evs = []"
  by (induction evs) auto

lemma beats_dropEvents: "beats (map (dropEvent e c data) subs) = []"
  by (induction subs) (auto simp: beats_def dropEvent_def)

lemma chanSends_dropEvents:
  "filter isChanSend (map (dropEvent e c data) subs) = map (dropEvent e c data) subs"
  by (induction subs) (auto simp: dropEvent_def)

lemma closeConnection_Inr:
  "closeConnection e w c = Inr (w2, c2) \<Longrightarrow>
     trace w2 = trace w @ map (dropEvent e c (fst (proto_Marshal e))) (tracked c) @ [ResetTables] \<and>
     c2 = c\<lparr>requests := Some Map.empty, subscriptions := Some []\<rparr>"
  by (auto simp: closeConnection_def trace_emit trace_dropSubscriptions
        split: prod.splits option.splits)

lemma connectWithRetries_shape:
  "connectWithRetries e w c n = Inr (w', c', err) \<Longrightarrow>
     \<exists>evs. trace w' = trace w @ evs \<and> count_list (beats evs) Attempt \<le> nat n \<and>
       ((filter isChanSend evs = [] \<and> requests c' = requests c \<and>
           subscriptions c' = subscriptions c) \<or>
        (filter isChanSend evs = map (dropEvent e c (fst (proto_Marshal e))) (tracked c) \<and>
           requests c' = Some Map.empty \<and> subscriptions c' = Some [] \<and>
           err = Some (RetryLimitReached (MaxReconnects (Config c)))))"
proof (induction e w c n arbitrary: w' c' err rule: connectWithRetries.induct)
  case (1 e w c n)
  obtain w1 r where df: "discoverFirst w c = (w1, r)"
    by (cases "discoverFirst w c")
  show ?case
  proof (cases r)
    case (Inl derr)
    with df "1.prems" have "w' = w1" "c' = c"
      by (simp_all add: connectWithRetries.simps [of e w c n])
    with df Inl show ?thesis
      by (auto dest!: discoverFirst_err simp: beats_Cons beats_Nil)
  next
    case (Inr c1)
    from df Inr obtain ds where ds: "trace w1 = trace w @ ds" "set ds \<subseteq> {DiscoverCall}"
      and up1: "upToEndpoint c c1"
      using discoverFirst_Inr by blast
    show ?thesis
    proof (cases "0 < n")
      case False
      with df Inr "1.prems" obtain w2 c2 where
        cc: "closeConnection e w1 c1 = Inr (w2, c2)" and
        res: "w' = w2" "c' = c2" "err = Some (RetryLimitReached (MaxReconnects (Config c2)))"
        by (auto simp: connectWithRetries.simps [of e w c n] split: sum.splits)
      from closeConnection_Inr [OF cc] ds up1 res show ?thesis
        by (auto simp: upToEndpoint_fields [OF up1] beats_append beats_discover
              beats_dropEvents chanSends_discover chanSends_dropEvents beats_Cons beats_Nil
              intro!: exI [of _ "ds @ map (dropEvent e c (fst (proto_Marshal e))) (tracked c) @ [ResetTables]"])
    next
      case True
      obtain w2 c2 cerr where cn: "connect e w1 c1 = (w2, c2, cerr)"
        by (cases "connect e w1 c1") auto
      show ?thesis
      proof (cases cerr)
        case None
        with df Inr True cn "1.prems" have res: "w' = w2" "c' = c2"
          by (simp_all add: connectWithRetries.simps [of e w c n])
        from cn None connect_succeeded [of e w1 c1 w2 c2] ds up1 res True show ?thesis
          by (auto simp: upToEndpoint_fields [OF up1] beats_append beats_discover
                chanSends_discover beats_Cons beats_Nil)
      next
        case (Some cerr')
        obtain w3 c3 where da:
          "discoverAgain (emit (Sleep (sleepDuration (ReconnectionDelay (Config c2)))) w2) c2 = (w3, c3)"
          by (cases "discoverAgain (emit (Sleep (sleepDuration (ReconnectionDelay (Config c2)))) w2) c2")
        from cn Some have c2: "c2 = c1" and
          t2: "trace w2 = trace w1 @ [ConnectAttempt (Address (Config c1)) (Port (Config c1))]"
          using connect_failed by blast+
        from discoverAgain_result [OF da] obtain ds' where
          ds': "trace w3 = trace w2 @ [Sleep (sleepDuration (ReconnectionDelay (Config c2)))] @ ds'"
            "set ds' \<subseteq> {DiscoverCall}" and up3: "upToEndpoint c2 c3"
          by (auto simp: trace_emit)
        have up: "upToEndpoint c c3"
          using up1 up3 c2 upToEndpoint_trans by blast
        from df Inr True cn Some da "1.prems" have rec:
          "connectWithRetries e w3 c3 (n - 1) = Inr (w', c', err)"
          by (simp add: connectWithRetries.simps [of e w c n])
        from "1.IH" [OF df [symmetric] Inr True cn [symmetric] refl Some da [symmetric] rec]
        obtain evs where evs: "trace w' = trace w3 @ evs"
          "count_list (beats evs) Attempt \<le> nat (n - 1)"
          "(filter isChanSend evs = [] \<and> requests c' = requests c3 \<and>
              subscriptions c' = subscriptions c3) \<or>
           (filter isChanSend evs = map (dropEvent e c3 (fst (proto_Marshal e))) (tracked c3) \<and>
              requests c' = Some Map.empty \<and> subscriptions c' = Some [] \<and>
              err = Some (RetryLimitReached (MaxReconnects (Config c3))))"
          by blast
        let ?all = "ds @ [ConnectAttempt (Address (Config c1)) (Port (Config c1))] @
            [Sleep (sleepDuration (ReconnectionDelay (Config c2)))] @ ds' @ evs"
        have "trace w' = trace w @ ?all"
          using evs(1) ds'(1) t2 ds(1) by simp
        moreover have "count_list (beats ?all) Attempt \<le> nat n"
          using evs(2) True ds(2) ds'(2)
          by (simp add: beats_append beats_discover beats_Cons beats_Nil)
        moreover have "filter isChanSend ?all = filter isChanSend evs"
          using ds(2) ds'(2) by (simp add: chanSends_discover)
        ultimately show ?thesis
          using evs(3) by (auto simp: upToEndpoint_fields [OF up] intro!: exI [of _ ?all])
      qed
    qed
  qed
qed

subsection \<open>Construction\<close>

text \<open>
  C6. Without an endpoint discoverer, \<^verbatim>\<open>NewEventStoreConnection\<close> returns an error exactly
  when the address is the empty string or the port is at most 0; with a discoverer it
  never returns an error, whatever the address and the port are. When it returns a
  connection, the connection holds the configuration it was given.
\<close>

theorem NewEventStoreConnection_fails_iff:
  "(EndpointDiscoverer config = None \<longrightarrow>
      (isl (snd (NewEventStoreConnection e w config)) \<longleftrightarrow>
         Address config = [] \<or> Port config \<le> 0)) \<and>
   (EndpointDiscoverer config \<noteq> None \<longrightarrow>
      \<not> isl (snd (NewEventStoreConnection e w config))) \<and>
   (\<not> isl (snd (NewEventStoreConnection e w config)) \<longrightarrow>
      Config (projr (snd (NewEventStoreConnection e w config))) = config)"
  by (simp add: NewEventStoreConnection_def)

theorem NewEventStoreConnection_fails_iff_witness:
  "EndpointDiscoverer localConfig = None \<and>
   \<not> isl (snd (NewEventStoreConnection refusingEnv startWorld localConfig)) \<and>
   Config (projr (snd (NewEventStoreConnection refusingEnv startWorld localConfig))) = localConfig \<and>
   EndpointDiscoverer (localConfig\<lparr>Port := 0\<rparr>) = None \<and>
   isl (snd (NewEventStoreConnection refusingEnv startWorld (localConfig\<lparr>Port := 0\<rparr>))) \<and>
   EndpointDiscoverer (localConfig\<lparr>Address := [], Port := -1,
       EndpointDiscoverer := Some (Discoverer (\<lambda>t. (\<lparr>ExternalTCPIP = ''10.0.0.1'', ExternalTCPPort = 1113\<rparr>, None)))\<rparr>)
     \<noteq> None \<and>
   \<not> isl (snd (NewEventStoreConnection refusingEnv startWorld
       (localConfig\<lparr>Address := [], Port := -1,
       EndpointDiscoverer := Some (Discoverer (\<lambda>t. (\<lparr>ExternalTCPIP = ''10.0.0.1'', ExternalTCPPort = 1113\<rparr>, None)))\<rparr>)))"
  using NewEventStoreConnection_fails_iff [of localConfig refusingEnv startWorld]
    NewEventStoreConnection_fails_iff [of "localConfig\<lparr>Port := 0\<rparr>" refusingEnv startWorld]
    NewEventStoreConnection_fails_iff [of "localConfig\<lparr>Address := [], Port := -1,
       EndpointDiscoverer := Some (Discoverer (\<lambda>t. (\<lparr>ExternalTCPIP = ''10.0.0.1'', ExternalTCPPort = 1113\<rparr>, None)))\<rparr>"
       refusingEnv startWorld]
  by (simp add: localConfig_def NewConfiguration_def)

subsection \<open>Dispatch of responses\<close>

lemma dispatch_deliverable:
  "Command msg \<in> deliverable \<Longrightarrow> dispatch e w c msg = Inr (deliver e w c msg)"
  by (auto simp: deliverable_def dispatch_def)

lemma dispatch_keeps_connection:
  "dispatch e w c msg = Inr (w1, c1) \<Longrightarrow> c1 = c"
  by (cases "Command msg") (auto simp: dispatch_def deliver_def Let_def split: option.splits)

text \<open>
  C1. For a decoded frame whose command is one of the operation-completed or
  subscription-class commands (the cases of lines 207 and 213), the switch does this:
  if the requests table has an entry for the frame's correlation id, the frame is
  sent exactly once, on that entry's channel, and nothing else happens; if it has
  no entry, nothing happens at all: no event, no change of the connection, and the
  reader goes on (the result is not a panic, a deadlock or a fatal exit).
\<close>

theorem response_delivered_once_or_dropped:
  assumes "Command msg \<in> deliverable"
  shows "(lookupRequest connection (uuid_FromBytes e (CorrelationID msg)) = Some request \<longrightarrow>
            dispatch e w connection msg =
              Inr (w\<lparr>trace := trace w @ [ChanSend request msg]\<rparr>, connection)) \<and>
         (lookupRequest connection (uuid_FromBytes e (CorrelationID msg)) = None \<longrightarrow>
            dispatch e w connection msg = Inr (w, connection))"
  using assms by (simp add: dispatch_deliverable deliver_def emit_def Let_def)

theorem response_delivered_once_or_dropped_witness:
  "Command (frame readEventCompleted [1] idA [] []) \<in> deliverable \<and>
   lookupRequest liveConn (uuid_FromBytes refusingEnv (CorrelationID (frame readEventCompleted [1] idA [] []))) = Some (Chan 1) \<and>
   dispatch refusingEnv startWorld liveConn (frame readEventCompleted [1] idA [] []) =
     Inr (startWorld\<lparr>trace := [ChanSend (Chan 1) (frame readEventCompleted [1] idA [] [])]\<rparr>, liveConn) \<and>
   Command (frame notAuthenticated [] idB [] []) \<in> deliverable \<and>
   lookupRequest liveConn (uuid_FromBytes refusingEnv (CorrelationID (frame notAuthenticated [] idB [] []))) = None \<and>
   dispatch refusingEnv startWorld liveConn (frame notAuthenticated [] idB [] []) =
     Inr (startWorld, liveConn)"
  using response_delivered_once_or_dropped [of "frame readEventCompleted [1] idA [] []" liveConn refusingEnv "Chan 1" startWorld]
   response_delivered_once_or_dropped [of "frame notAuthenticated [] idB [] []" liveConn refusingEnv "Chan 1" startWorld]
  by (simp add: deliverable_def frame_def lookupRequest_def liveConn_def refusingEnv_def
        idA_def idB_def startWorld_def)

subsection \<open>The send primitive\<close>

text \<open>
  C3. In every execution of \<^verbatim>\<open>sendPackage\<close> the store of the channel into the requests
  table, under the frame's correlation id, comes strictly before the write of the
  frame to the socket: when the table exists, the call adds to the trace exactly the
  store followed by the write, and the table it leaves holds the channel under that
  id. When the table is the nil map the store panics and the frame is never written.
\<close>

theorem sendPackage_registers_before_write:
  "(requests connection = None \<longrightarrow>
      sendPackage e w connection pkg channel = Inl (NilMapStore, w)) \<and>
   (\<forall>table. requests connection = Some table \<longrightarrow>
      sendPackage e w connection pkg channel =
        Inr (w\<lparr>clock := Suc (clock w),
               trace := trace w @
                 [StoreRequest (uuid_FromBytes e (CorrelationID pkg)) channel, SocketWrite pkg]\<rparr>,
             connection\<lparr>requests := Some (table(uuid_FromBytes e (CorrelationID pkg) \<mapsto> channel))\<rparr>,
             socket_Write e (clock w)))"
  by (simp add: sendPackage_def pkg_write_def tick_def emit_def Let_def)

theorem sendPackage_registers_before_write_witness:
  "requests liveConn = Some [UUID idA \<mapsto> Chan 1] \<and>
   sendPackage refusingEnv startWorld liveConn (frame ping [] idB [] []) (Chan 5) =
     Inr (\<lparr>clock = 1, trace = [StoreRequest (UUID idB) (Chan 5), SocketWrite (frame ping [] idB [] [])]\<rparr>,
          liveConn\<lparr>requests := Some [UUID idA \<mapsto> Chan 1, UUID idB \<mapsto> Chan 5]\<rparr>, None) \<and>
   requests (liveConn\<lparr>requests := None\<rparr>) = None \<and>
   sendPackage refusingEnv startWorld (liveConn\<lparr>requests := None\<rparr>) (frame ping [] idB [] []) (Chan 5) =
     Inl (NilMapStore, startWorld)"
  using sendPackage_registers_before_write [of liveConn refusingEnv startWorld "frame ping [] idB [] []" "Chan 5"]
    sendPackage_registers_before_write [of "liveConn\<lparr>requests := None\<rparr>" refusingEnv startWorld "frame ping [] idB [] []" "Chan 5"]
  by (simp add: liveConn_def refusingEnv_def startWorld_def frame_def idB_def)

text \<open>
  C10. If the socket write inside \<^verbatim>\<open>sendPackage\<close> fails, \<^verbatim>\<open>sendPackage\<close> returns that
  error, and the registration is not rolled back: the requests table it leaves still
  maps the frame's correlation id to the caller's channel.
\<close>

theorem sendPackage_failed_write_keeps_entry:
  assumes "requests connection = Some table" and "socket_Write e (clock w) = Some err"
  shows "\<exists>w' connection'.
           sendPackage e w connection pkg channel = Inr (w', connection', Some err) \<and>
           lookupRequest connection' (uuid_FromBytes e (CorrelationID pkg)) = Some channel"
  using assms by (simp add: sendPackage_def pkg_write_def lookupRequest_def clock_emit Let_def)

theorem sendPackage_failed_write_keeps_entry_witness:
  "requests liveConn = Some [UUID idA \<mapsto> Chan 1] \<and>
   socket_Write (refusingEnv\<lparr>socket_Write := (\<lambda>t. Some (ExternalError ''broken pipe''))\<rparr>) (clock startWorld)
     = Some (ExternalError ''broken pipe'') \<and>
   (\<exists>w' connection'.
      sendPackage (refusingEnv\<lparr>socket_Write := (\<lambda>t. Some (ExternalError ''broken pipe''))\<rparr>)
         startWorld liveConn (frame ping [] idB [] []) (Chan 5)
        = Inr (w', connection', Some (ExternalError ''broken pipe'')) \<and>
      lookupRequest connection' (UUID idB) = Some (Chan 5))"
  using sendPackage_failed_write_keeps_entry [of liveConn "[UUID idA \<mapsto> Chan 1]"
     "refusingEnv\<lparr>socket_Write := (\<lambda>t. Some (ExternalError ''broken pipe''))\<rparr>" startWorld
     "ExternalError ''broken pipe''" "frame ping [] idB [] []" "Chan 5"]
  by (simp add: liveConn_def refusingEnv_def startWorld_def frame_def idB_def)


subsection \<open>Close\<close>

lemma Close_Inr:
  "Close e w c = Inr (w', c', err) \<Longrightarrow>
     \<exists>s. \<not> Mutex c \<and> Socket c = Some s \<and>
       trace w' = trace w @ SocketClose s #
          map (dropEvent e c (fst (proto_Marshal e))) (tracked c) @ [ResetTables] \<and>
       c' = c\<lparr>connected := False, Socket := None,
              requests := Some Map.empty, subscriptions := Some []\<rparr> \<and>
       err = socket_Close e (clock w)"
  by (auto simp: Close_def Let_def closeConnection_def trace_emit trace_tick
        trace_dropSubscriptions tracked_def dropEvent_def dropNotification_def
        split: if_splits option.splits prod.splits sum.splits)

lemma since_append: "trace w' = trace w @ evs \<Longrightarrow> since w w' = evs"
  by (simp add: since_def)

text \<open>
  C4. After \<^verbatim>\<open>Close\<close> has returned, the sends it issued are exactly one per entry of the
  subscriptions table as it was at the call, each on that subscription's channel and
  each carrying the subscription-dropped frame with that subscription's own
  correlation id and the login and password of the connection's configuration
  (provided the codec builds the frame for these arguments), and the requests table
  and the subscriptions table of the connection are both empty.
\<close>

theorem Close_drops_every_subscription:
  assumes "Close e w connection = Inr (w', connection', err)"
    and "\<forall>entry \<in> set (tracked connection).
           encodes e subscriptionDropped (fst (proto_Marshal e))
             (uuid_Bytes e (sub_CorrelationID (snd entry)))
             (Login (Config connection)) (Password (Config connection))"
  shows "filter isChanSend (since w w') =
           map (\<lambda>entry. ChanSend (Channel (snd entry))
                  (frame subscriptionDropped (fst (proto_Marshal e))
                     (uuid_Bytes e (sub_CorrelationID (snd entry)))
                     (Login (Config connection)) (Password (Config connection))))
               (tracked connection) \<and>
         requests connection' = Some Map.empty \<and> subscriptions connection' = Some []"
proof -
  from Close_Inr [OF assms(1)] obtain s where
    tr: "trace w' = trace w @ SocketClose s #
          map (dropEvent e connection (fst (proto_Marshal e))) (tracked connection) @ [ResetTables]"
    and c': "connection' = connection\<lparr>connected := False, Socket := None,
              requests := Some Map.empty, subscriptions := Some []\<rparr>"
    by blast
  have filt: "filter isChanSend (since w w') =
      map (dropEvent e connection (fst (proto_Marshal e))) (tracked connection)"
    using since_append [OF tr] by (simp add: chanSends_dropEvents)
  have "map (dropEvent e connection (fst (proto_Marshal e))) (tracked connection) =
        map (\<lambda>entry. ChanSend (Channel (snd entry))
                  (frame subscriptionDropped (fst (proto_Marshal e))
                     (uuid_Bytes e (sub_CorrelationID (snd entry)))
                     (Login (Config connection)) (Password (Config connection))))
               (tracked connection)"
    using assms(2) by (simp add: dropEvent_def dropNotification_def encodes_def)
  with filt c' show ?thesis
    by simp
qed

theorem Close_drops_every_subscription_witness:
  "Close refusingEnv startWorld liveConn =
     Inr (\<lparr>clock = 1, trace = [SocketClose 3,
             ChanSend (Chan 2) (frame subscriptionDropped [8, 0] idB ''admin'' ''changeit''),
             ResetTables]\<rparr>,
          liveConn\<lparr>connected := False, Socket := None,
              requests := Some Map.empty, subscriptions := Some []\<rparr>, None) \<and>
   tracked liveConn = [(UUID idB, \<lparr>sub_CorrelationID = UUID idB, Channel = Chan 2\<rparr>)] \<and>
   encodes refusingEnv subscriptionDropped [8, 0] idB ''admin'' ''changeit'' \<and>
   filter isChanSend (since startWorld \<lparr>clock = 1, trace = [SocketClose 3,
             ChanSend (Chan 2) (frame subscriptionDropped [8, 0] idB ''admin'' ''changeit''),
             ResetTables]\<rparr>) =
     [ChanSend (Chan 2) (frame subscriptionDropped [8, 0] idB ''admin'' ''changeit'')] \<and>
   requests (liveConn\<lparr>connected := False, Socket := None,
              requests := Some Map.empty, subscriptions := Some []\<rparr>) = Some Map.empty \<and>
   subscriptions (liveConn\<lparr>connected := False, Socket := None,
              requests := Some Map.empty, subscriptions := Some []\<rparr>) = Some []"
proof -
  have run: "Close refusingEnv startWorld liveConn =
     Inr (\<lparr>clock = 1, trace = [SocketClose 3,
             ChanSend (Chan 2) (frame subscriptionDropped [8, 0] idB ''admin'' ''changeit''),
             ResetTables]\<rparr>,
          liveConn\<lparr>connected := False, Socket := None,
              requests := Some Map.empty, subscriptions := Some []\<rparr>, None)"
    by (simp add: Close_def closeConnection_def liveConn_def refusingEnv_def startWorld_def
          tracked_def dropNotification_def tick_def emit_def Let_def)
  have enc: "\<forall>entry \<in> set (tracked liveConn).
           encodes refusingEnv subscriptionDropped (fst (proto_Marshal refusingEnv))
             (uuid_Bytes refusingEnv (sub_CorrelationID (snd entry)))
             (Login (Config liveConn)) (Password (Config liveConn))"
    by (simp add: encodes_def refusingEnv_def)
  from Close_drops_every_subscription [OF run enc] run enc show ?thesis
    by (simp add: tracked_def liveConn_def refusingEnv_def encodes_def)
qed

subsection \<open>Heartbeat and pong\<close>

text \<open>
  C7. For a decoded heartbeat-request frame the reader does exactly one thing: it
  starts one task that runs \<^verbatim>\<open>sendPackage\<close> on the heartbeat-response frame with the
  correlation id of the request (provided the codec builds that frame). The reader
  itself writes nothing and sends on no channel, so it cannot be held up by the
  reply; the task, run on a connection with a requests table, writes that frame to
  the socket once.
\<close>

theorem heartbeat_answered_once_in_own_task:
  assumes "Command msg = heartbeatRequest"
    and "encodes e heartbeatResponse [] (CorrelationID msg) [] []"
  shows "dispatch e w connection msg =
           Inr (w\<lparr>clock := Suc (clock w),
                  trace := trace w @
                    [Go (Run_sendPackage (frame heartbeatResponse [] (CorrelationID msg) [] [])
                           (MadeChan (clock w)))]\<rparr>,
                connection) \<and>
         (\<forall>table. requests connection' = Some table \<longrightarrow>
            (\<exists>connection'' err.
               sendPackage e w' connection' (frame heartbeatResponse [] (CorrelationID msg) [] [])
                   (MadeChan (clock w)) =
                 Inr (w'\<lparr>clock := Suc (clock w'),
                         trace := trace w' @
                           [StoreRequest (uuid_FromBytes e (CorrelationID msg)) (MadeChan (clock w)),
                            SocketWrite (frame heartbeatResponse [] (CorrelationID msg) [] [])]\<rparr>,
                      connection'', err)))"
  using assms
  by (simp add: dispatch_def encodes_def Let_def tick_def emit_def sendPackage_def
        pkg_write_def frame_def)

theorem heartbeat_answered_once_in_own_task_witness:
  "Command (frame heartbeatRequest [] idB [] []) = heartbeatRequest \<and>
   encodes refusingEnv heartbeatResponse [] (CorrelationID (frame heartbeatRequest [] idB [] [])) [] [] \<and>
   dispatch refusingEnv startWorld liveConn (frame heartbeatRequest [] idB [] []) =
     Inr (\<lparr>clock = 1,
            trace = [Go (Run_sendPackage (frame heartbeatResponse [] idB [] []) (MadeChan 0))]\<rparr>,
          liveConn) \<and>
   requests liveConn = Some [UUID idA \<mapsto> Chan 1] \<and>
   (\<exists>connection'' err.
      sendPackage refusingEnv startWorld liveConn (frame heartbeatResponse [] idB [] []) (MadeChan 0) =
        Inr (\<lparr>clock = 1,
               trace = [StoreRequest (UUID idB) (MadeChan 0),
                        SocketWrite (frame heartbeatResponse [] idB [] [])]\<rparr>,
             connection'', err))"
proof -
  have h1: "Command (frame heartbeatRequest [] idB [] []) = heartbeatRequest"
    by (simp add: frame_def)
  have h2: "encodes refusingEnv heartbeatResponse []
              (CorrelationID (frame heartbeatRequest [] idB [] [])) [] []"
    by (simp add: encodes_def refusingEnv_def)
  have h3: "requests liveConn = Some [UUID idA \<mapsto> Chan 1]"
    by (simp add: liveConn_def)
  have id: "uuid_FromBytes refusingEnv idB = UUID idB"
    by (simp add: refusingEnv_def idB_def)
  note run = heartbeat_answered_once_in_own_task [OF h1 h2, where w = startWorld
      and connection = liveConn and connection' = liveConn and w' = startWorld]
  from run h3 have "\<exists>connection'' err.
      sendPackage refusingEnv startWorld liveConn
          (frame heartbeatResponse [] (CorrelationID (frame heartbeatRequest [] idB [] [])) [] [])
          (MadeChan (clock startWorld)) =
        Inr (startWorld\<lparr>clock := Suc (clock startWorld),
               trace := trace startWorld @
                 [StoreRequest (uuid_FromBytes refusingEnv (CorrelationID (frame heartbeatRequest [] idB [] [])))
                    (MadeChan (clock startWorld)),
                  SocketWrite (frame heartbeatResponse []
                    (CorrelationID (frame heartbeatRequest [] idB [] [])) [] [])]\<rparr>,
             connection'', err)"
    by blast
  then have "\<exists>connection'' err.
      sendPackage refusingEnv startWorld liveConn (frame heartbeatResponse [] idB [] []) (MadeChan 0) =
        Inr (\<lparr>clock = 1,
               trace = [StoreRequest (UUID idB) (MadeChan 0),
                        SocketWrite (frame heartbeatResponse [] idB [] [])]\<rparr>,
             connection'', err)"
    by (simp add: id startWorld_def) (simp add: frame_def id)
  moreover from run have "dispatch refusingEnv startWorld liveConn (frame heartbeatRequest [] idB [] []) =
     Inr (\<lparr>clock = 1,
            trace = [Go (Run_sendPackage (frame heartbeatResponse [] idB [] []) (MadeChan 0))]\<rparr>,
          liveConn)"
    by (simp add: startWorld_def) (simp add: frame_def)
  ultimately show ?thesis
    using h1 h2 h3 by blast
qed

text \<open>
  C8. For a decoded pong frame the reader does exactly one thing: it draws a new id
  from the generator and starts one task that runs \<^verbatim>\<open>sendPackage\<close> on a ping frame
  with that id (provided the codec builds that frame). The id does not come from the
  pong: whatever correlation id the pong carries, the reader does the same. The
  task, run on a connection with a requests table, writes that frame once.
\<close>

theorem pong_answered_by_fresh_ping:
  assumes "Command msg = pong"
    and "encodes e ping [] (uuid_Bytes e (uuid_NewV4 e (clock w))) [] []"
  shows "dispatch e w connection msg =
           Inr (w\<lparr>clock := Suc (Suc (clock w)),
                  trace := trace w @
                    [Go (Run_sendPackage
                           (frame ping [] (uuid_Bytes e (uuid_NewV4 e (clock w))) [] [])
                           (MadeChan (Suc (clock w))))]\<rparr>,
                connection) \<and>
         dispatch e w connection (msg\<lparr>CorrelationID := other\<rparr>) = dispatch e w connection msg \<and>
         (\<forall>table. requests connection' = Some table \<longrightarrow>
            (\<exists>connection'' err.
               sendPackage e w' connection'
                   (frame ping [] (uuid_Bytes e (uuid_NewV4 e (clock w))) [] [])
                   (MadeChan (Suc (clock w))) =
                 Inr (w'\<lparr>clock := Suc (clock w'),
                         trace := trace w' @
                           [StoreRequest (uuid_FromBytes e (uuid_Bytes e (uuid_NewV4 e (clock w))))
                              (MadeChan (Suc (clock w))),
                            SocketWrite (frame ping [] (uuid_Bytes e (uuid_NewV4 e (clock w))) [] [])]\<rparr>,
                      connection'', err)))"
  using assms
  by (simp add: dispatch_def encodes_def Let_def tick_def emit_def sendPackage_def
        pkg_write_def frame_def)

theorem pong_answered_by_fresh_ping_witness:
  "Command (frame pong [] idA [] []) = pong \<and>
   encodes refusingEnv ping [] (uuid_Bytes refusingEnv (uuid_NewV4 refusingEnv (clock startWorld))) [] [] \<and>
   dispatch refusingEnv startWorld liveConn (frame pong [] idA [] []) =
     Inr (\<lparr>clock = 2,
            trace = [Go (Run_sendPackage (frame ping [] (replicate 16 0) [] []) (MadeChan 1))]\<rparr>,
          liveConn) \<and>
   dispatch refusingEnv startWorld liveConn ((frame pong [] idA [] [])\<lparr>CorrelationID := idB\<rparr>) =
     dispatch refusingEnv startWorld liveConn (frame pong [] idA [] []) \<and>
   requests liveConn = Some [UUID idA \<mapsto> Chan 1] \<and>
   (\<exists>connection'' err.
      sendPackage refusingEnv startWorld liveConn (frame ping [] (replicate 16 0) [] []) (MadeChan 1) =
        Inr (\<lparr>clock = 1,
               trace = [StoreRequest (UUID (replicate 16 0)) (MadeChan 1),
                        SocketWrite (frame ping [] (replicate 16 0) [] [])]\<rparr>,
             connection'', err))"
proof -
  have h1: "Command (frame pong [] idA [] []) = pong"
    by (simp add: frame_def)
  have h2: "encodes refusingEnv ping []
              (uuid_Bytes refusingEnv (uuid_NewV4 refusingEnv (clock startWorld))) [] []"
    by (simp add: encodes_def refusingEnv_def)
  have h3: "requests liveConn = Some [UUID idA \<mapsto> Chan 1]"
    by (simp add: liveConn_def)
  have new: "uuid_Bytes refusingEnv (uuid_NewV4 refusingEnv (clock startWorld)) = replicate 16 0"
    by (simp add: refusingEnv_def startWorld_def)
  have id: "uuid_FromBytes refusingEnv (replicate 16 0) = UUID (replicate 16 0)"
    by (simp add: refusingEnv_def)
  note run = pong_answered_by_fresh_ping [OF h1 h2, where connection = liveConn
      and connection' = liveConn and w' = startWorld and other = idB]
  from run h3 have "\<exists>connection'' err.
      sendPackage refusingEnv startWorld liveConn
          (frame ping [] (uuid_Bytes refusingEnv (uuid_NewV4 refusingEnv (clock startWorld))) [] [])
          (MadeChan (Suc (clock startWorld))) =
        Inr (startWorld\<lparr>clock := Suc (clock startWorld),
               trace := trace startWorld @
                 [StoreRequest (uuid_FromBytes refusingEnv
                      (uuid_Bytes refusingEnv (uuid_NewV4 refusingEnv (clock startWorld))))
                    (MadeChan (Suc (clock startWorld))),
                  SocketWrite (frame ping []
                    (uuid_Bytes refusingEnv (uuid_NewV4 refusingEnv (clock startWorld))) [] [])]\<rparr>,
             connection'', err)"
    by blast
  then have "\<exists>connection'' err.
      sendPackage refusingEnv startWorld liveConn (frame ping [] (replicate 16 0) [] []) (MadeChan 1) =
        Inr (\<lparr>clock = 1,
               trace = [StoreRequest (UUID (replicate 16 0)) (MadeChan 1),
                        SocketWrite (frame ping [] (replicate 16 0) [] [])]\<rparr>,
             connection'', err)"
    by (simp only: new id) (simp add: startWorld_def)
  moreover from run have "dispatch refusingEnv startWorld liveConn (frame pong [] idA [] []) =
     Inr (\<lparr>clock = 2,
            trace = [Go (Run_sendPackage (frame ping [] (replicate 16 0) [] []) (MadeChan 1))]\<rparr>,
          liveConn)"
    by (simp only: new) (simp add: startWorld_def)
  moreover from run have
    "dispatch refusingEnv startWorld liveConn ((frame pong [] idA [] [])\<lparr>CorrelationID := idB\<rparr>) =
     dispatch refusingEnv startWorld liveConn (frame pong [] idA [] [])"
    by blast
  ultimately show ?thesis
    using h1 h2 h3 by blast
qed

subsection \<open>The requests table over the life of a connection\<close>

lemma sendPackage_Inr:
  "sendPackage e w c pkg channel = Inr (w', c', err) \<Longrightarrow>
     \<exists>table. requests c = Some table \<and>
       requests c' = Some (table(uuid_FromBytes e (CorrelationID pkg) \<mapsto> channel))"
  by (auto simp: sendPackage_def pkg_write_def Let_def split: option.splits)

lemma readFromSocket_data_keeps_requests:
  "\<forall>r \<in> set reads. isReadData r \<Longrightarrow> readFromSocket e w c reads = Inr (w', c') \<Longrightarrow>
     requests c' = requests c"
proof (induction reads arbitrary: w c)
  case Nil
  then show ?case
    by (subst (asm) readFromSocket.simps) (auto split: if_splits option.splits)
next
  case (Cons r reads)
  from Cons.prems(1) obtain buffer where r: "r = ReadData buffer"
    by (cases r) auto
  show ?case
  proof (cases "Mutex c \<or> \<not> connected c \<or> Socket c = None")
    case True
    with Cons.prems(2) show ?thesis
      by (subst (asm) readFromSocket.simps) (auto split: if_splits option.splits)
  next
    case False
    obtain msg perr where p: "parsePackage e buffer = (msg, perr)"
      by (cases "parsePackage e buffer")
    from False Cons.prems(2) r p obtain w1 c1 where
      d: "dispatch e w c msg = Inr (w1, c1)" and
      rest: "readFromSocket e w1 c1 reads = Inr (w', c')"
      by (subst (asm) readFromSocket.simps) (auto split: if_splits option.splits sum.splits)
    from dispatch_keeps_connection [OF d] Cons.IH [OF _ rest] Cons.prems(1) show ?thesis
      by simp
  qed
qed

text \<open>
  C9. Delivering a frame leaves the requests table as it was: the switch returns the
  connection unchanged, and so does the reader's loop over any run of successful
  reads, so the entry of a delivered correlation id is never removed. \<^verbatim>\<open>sendPackage\<close>
  only adds: every id that had an entry still has one. \<^verbatim>\<open>connectWithRetries\<close> leaves
  the table as it was unless it ends in the retry-limit error, in which case the
  table is empty. (The other writes of the table in the file are the resets in
  \<^verbatim>\<open>Connect\<close> and in \<^verbatim>\<open>closeConnection\<close>, which \<^verbatim>\<open>Close\<close> calls.)
\<close>

theorem requests_table_only_grows:
  "(dispatch e w c msg = Inr (w1, c1) \<longrightarrow> requests c1 = requests c) \<and>
   ((\<forall>r \<in> set reads. isReadData r) \<and> readFromSocket e w c reads = Inr (w2, c2) \<longrightarrow>
      requests c2 = requests c) \<and>
   (sendPackage e w c pkg channel = Inr (w3, c3, err3) \<longrightarrow>
      (\<forall>k. lookupRequest c k \<noteq> None \<longrightarrow> lookupRequest c3 k \<noteq> None)) \<and>
   (connectWithRetries e w c n = Inr (w4, c4, err4) \<longrightarrow>
      requests c4 = requests c \<or>
      (requests c4 = Some Map.empty \<and>
       err4 = Some (RetryLimitReached (MaxReconnects (Config c)))))"
proof (intro conjI impI)
  assume "dispatch e w c msg = Inr (w1, c1)"
  then show "requests c1 = requests c"
    using dispatch_keeps_connection by blast
next
  assume "(\<forall>r \<in> set reads. isReadData r) \<and> readFromSocket e w c reads = Inr (w2, c2)"
  then show "requests c2 = requests c"
    using readFromSocket_data_keeps_requests by blast
next
  assume "sendPackage e w c pkg channel = Inr (w3, c3, err3)"
  from sendPackage_Inr [OF this] show "\<forall>k. lookupRequest c k \<noteq> None \<longrightarrow> lookupRequest c3 k \<noteq> None"
    by (auto simp: lookupRequest_def)
next
  assume "connectWithRetries e w c n = Inr (w4, c4, err4)"
  from connectWithRetries_shape [OF this] show "requests c4 = requests c \<or>
      (requests c4 = Some Map.empty \<and>
       err4 = Some (RetryLimitReached (MaxReconnects (Config c))))"
    by blast
qed

theorem requests_table_only_grows_witness:
  "dispatch refusingEnv startWorld liveConn (frame readEventCompleted [] idA [] []) =
     Inr (\<lparr>clock = 0, trace = [ChanSend (Chan 1) (frame readEventCompleted [] idA [] [])]\<rparr>, liveConn) \<and>
   requests liveConn = requests liveConn \<and>
   isReadData (ReadData (177 # idA)) \<and>
   readFromSocket refusingEnv startWorld liveConn [ReadData (177 # idA)] =
     Inr (\<lparr>clock = 0, trace = [ChanSend (Chan 1) (frame readEventCompleted [] idA [] [])]\<rparr>, liveConn) \<and>
   sendPackage refusingEnv startWorld liveConn (frame ping [] idB [] []) (Chan 5) =
     Inr (\<lparr>clock = 1, trace = [StoreRequest (UUID idB) (Chan 5), SocketWrite (frame ping [] idB [] [])]\<rparr>,
          liveConn\<lparr>requests := Some [UUID idA \<mapsto> Chan 1, UUID idB \<mapsto> Chan 5]\<rparr>, None) \<and>
   lookupRequest liveConn (UUID idA) \<noteq> None \<and>
   lookupRequest (liveConn\<lparr>requests := Some [UUID idA \<mapsto> Chan 1, UUID idB \<mapsto> Chan 5]\<rparr>)
     (UUID idA) \<noteq> None \<and>
   connectWithRetries refusingEnv startWorld liveConn 0 =
     Inr (\<lparr>clock = 0,
            trace = [ChanSend (Chan 2) (frame subscriptionDropped [8, 0] idB ''admin'' ''changeit''),
                     ResetTables]\<rparr>,
          liveConn\<lparr>requests := Some Map.empty, subscriptions := Some []\<rparr>,
          Some (RetryLimitReached 2)) \<and>
   requests (liveConn\<lparr>requests := Some Map.empty, subscriptions := Some []\<rparr>) = Some Map.empty"
proof -
  have d: "dispatch refusingEnv startWorld liveConn (frame readEventCompleted [] idA [] []) =
     Inr (\<lparr>clock = 0, trace = [ChanSend (Chan 1) (frame readEventCompleted [] idA [] [])]\<rparr>, liveConn)"
    by (simp add: dispatch_def deliver_def lookupRequest_def frame_def refusingEnv_def
          liveConn_def startWorld_def emit_def idA_def)
  have p: "parsePackage refusingEnv (177 # idA) = (frame readEventCompleted [] idA [] [], None)"
    by (simp add: refusingEnv_def idA_def)
  have r: "readFromSocket refusingEnv startWorld liveConn [ReadData (177 # idA)] =
     Inr (\<lparr>clock = 0, trace = [ChanSend (Chan 1) (frame readEventCompleted [] idA [] [])]\<rparr>, liveConn)"
  proof -
    have live: "Mutex liveConn = False" "connected liveConn = True" "Socket liveConn = Some 3"
      by (simp_all add: liveConn_def)
    show ?thesis
      by (subst readFromSocket.simps, subst readFromSocket.simps) (simp add: p d live)
  qed
  have rs: "\<forall>r \<in> set [ReadData (177 # idA)]. isReadData r"
    by simp
  have s: "sendPackage refusingEnv startWorld liveConn (frame ping [] idB [] []) (Chan 5) =
     Inr (\<lparr>clock = 1, trace = [StoreRequest (UUID idB) (Chan 5), SocketWrite (frame ping [] idB [] [])]\<rparr>,
          liveConn\<lparr>requests := Some [UUID idA \<mapsto> Chan 1, UUID idB \<mapsto> Chan 5]\<rparr>, None)"
    by (simp add: sendPackage_def pkg_write_def liveConn_def refusingEnv_def startWorld_def
          frame_def idB_def tick_def emit_def Let_def)
  have c: "connectWithRetries refusingEnv startWorld liveConn 0 =
     Inr (\<lparr>clock = 0,
            trace = [ChanSend (Chan 2) (frame subscriptionDropped [8, 0] idB ''admin'' ''changeit''),
                     ResetTables]\<rparr>,
          liveConn\<lparr>requests := Some Map.empty, subscriptions := Some []\<rparr>,
          Some (RetryLimitReached 2))"
    by (subst connectWithRetries.simps)
       (simp add: discoverFirst_def closeConnection_def liveConn_def localConfig_def
          NewConfiguration_def refusingEnv_def startWorld_def tracked_def dropNotification_def
          emit_def)
  from requests_table_only_grows [where e = refusingEnv and w = startWorld and c = liveConn
      and msg = "frame readEventCompleted [] idA [] []"
      and ?w1.0 = "\<lparr>clock = 0, trace = [ChanSend (Chan 1) (frame readEventCompleted [] idA [] [])]\<rparr>"
      and ?c1.0 = liveConn
      and reads = "[ReadData (177 # idA)]"
      and ?w2.0 = "\<lparr>clock = 0, trace = [ChanSend (Chan 1) (frame readEventCompleted [] idA [] [])]\<rparr>"
      and ?c2.0 = liveConn
      and pkg = "frame ping [] idB [] []" and channel = "Chan 5"
      and ?w3.0 = "\<lparr>clock = 1, trace = [StoreRequest (UUID idB) (Chan 5), SocketWrite (frame ping [] idB [] [])]\<rparr>"
      and ?c3.0 = "liveConn\<lparr>requests := Some [UUID idA \<mapsto> Chan 1, UUID idB \<mapsto> Chan 5]\<rparr>"
      and ?err3.0 = None and n = 0
      and ?w4.0 = "\<lparr>clock = 0,
            trace = [ChanSend (Chan 2) (frame subscriptionDropped [8, 0] idB ''admin'' ''changeit''),
                     ResetTables]\<rparr>"
      and ?c4.0 = "liveConn\<lparr>requests := Some Map.empty, subscriptions := Some []\<rparr>"
      and ?err4.0 = "Some (RetryLimitReached 2)"]
    d r rs s c
  show ?thesis
    by (simp add: liveConn_def lookupRequest_def)
qed

subsection \<open>Retrying until the limit\<close>

lemma discoverFirst_succeeds:
  assumes "\<forall>d t. EndpointDiscoverer (Config c) = Some d \<longrightarrow> snd (Discover d t) = None"
  shows "\<exists>w1 c1. discoverFirst w c = (w1, Inr c1)"
proof (cases "EndpointDiscoverer (Config c)")
  case None
  then show ?thesis by (simp add: discoverFirst_def)
next
  case (Some d)
  with assms have "snd (Discover d (clock w)) = None" by blast
  with Some show ?thesis
    by (cases "Discover d (clock w)") (simp add: discoverFirst_def)
qed

lemma connect_fails:
  assumes "\<forall>t a p s. dial e t a p \<noteq> Dialed s"
  shows "\<exists>w2 err. connect e w c = (w2, c, Some err)"
  using assms by (cases "dial e (clock w) (Address (Config c)) (Port (Config c))")
    (auto simp: connect_def Let_def)

lemma closeConnection_succeeds:
  assumes "snd (proto_Marshal e) = None"
  shows "\<exists>w2 c2. closeConnection e w c = Inr (w2, c2)"
  using assms by (cases "proto_Marshal e") (simp add: closeConnection_def)

lemma connectWithRetries_returns:
  assumes "snd (proto_Marshal e) = None"
  shows "\<exists>w' c' err. connectWithRetries e w c n = Inr (w', c', err)"
  using assms
proof (induction e w c n rule: connectWithRetries.induct)
  case (1 e w c n)
  obtain w1 r where df: "discoverFirst w c = (w1, r)"
    by (cases "discoverFirst w c")
  show ?case
  proof (cases r)
    case (Inl derr)
    with df show ?thesis
      by (simp add: connectWithRetries.simps [of e w c n])
  next
    case (Inr c1)
    show ?thesis
    proof (cases "0 < n")
      case False
      with df Inr closeConnection_succeeds [OF "1.prems", of w1 c1] show ?thesis
        by (auto simp: connectWithRetries.simps [of e w c n])
    next
      case True
      obtain w2 c2 cerr where cn: "connect e w1 c1 = (w2, c2, cerr)"
        by (cases "connect e w1 c1") auto
      show ?thesis
      proof (cases cerr)
        case None
        with df Inr True cn show ?thesis
          by (simp add: connectWithRetries.simps [of e w c n])
      next
        case (Some cerr')
        obtain w3 c3 where da:
          "discoverAgain (emit (Sleep (sleepDuration (ReconnectionDelay (Config c2)))) w2) c2 = (w3, c3)"
          by (cases "discoverAgain (emit (Sleep (sleepDuration (ReconnectionDelay (Config c2)))) w2) c2")
        from "1.IH" [OF df [symmetric] Inr True cn [symmetric] refl Some da [symmetric] "1.prems"]
          df Inr True cn Some da
        show ?thesis
          by (simp add: connectWithRetries.simps [of e w c n])
      qed
    qed
  qed
qed

lemma connectWithRetries_exhausts:
  assumes fails: "\<forall>t a p s. dial e t a p \<noteq> Dialed s"
    and disc: "\<forall>d t. EndpointDiscoverer (Config c) = Some d \<longrightarrow> snd (Discover d t) = None"
    and marshal: "snd (proto_Marshal e) = None"
  shows "\<exists>w' c' pre.
           connectWithRetries e w c (int n) =
             Inr (w', c', Some (RetryLimitReached (MaxReconnects (Config c)))) \<and>
           trace w' = trace w @ pre @
             map (dropEvent e c (fst (proto_Marshal e))) (tracked c) @ [ResetTables] \<and>
           beats pre =
             concat (replicate n [Attempt, Wait (sleepDuration (ReconnectionDelay (Config c)))]) \<and>
           filter isChanSend pre = [] \<and>
           requests c' = Some Map.empty \<and> subscriptions c' = Some []"
  using disc
proof (induction n arbitrary: w c)
  case 0
  from discoverFirst_succeeds [OF "0.prems"] obtain w1 c1 where
    df: "discoverFirst w c = (w1, Inr c1)" by blast
  from discoverFirst_Inr [OF df] obtain ds where
    ds: "trace w1 = trace w @ ds" "set ds \<subseteq> {DiscoverCall}" and up: "upToEndpoint c c1"
    by blast
  from closeConnection_succeeds [OF marshal] obtain w2 c2 where
    cc: "closeConnection e w1 c1 = Inr (w2, c2)" by blast
  from df cc have "connectWithRetries e w c (int 0) =
      Inr (w2, c2, Some (RetryLimitReached (MaxReconnects (Config c2))))"
    by (simp add: connectWithRetries.simps [of e w c 0])
  with closeConnection_Inr [OF cc] ds up show ?case
    by (auto simp: upToEndpoint_fields [OF up] beats_discover chanSends_discover
          intro!: exI [of _ ds])
next
  case (Suc n)
  from discoverFirst_succeeds [OF Suc.prems] obtain w1 c1 where
    df: "discoverFirst w c = (w1, Inr c1)" by blast
  from discoverFirst_Inr [OF df] obtain ds where
    ds: "trace w1 = trace w @ ds" "set ds \<subseteq> {DiscoverCall}" and up1: "upToEndpoint c c1"
    by blast
  from connect_fails [OF fails] obtain w2 cerr where
    cn: "connect e w1 c1 = (w2, c1, Some cerr)" by blast
  from connect_failed [OF cn] have
    t2: "trace w2 = trace w1 @ [ConnectAttempt (Address (Config c1)) (Port (Config c1))]"
    by simp
  obtain w3 c3 where da:
    "discoverAgain (emit (Sleep (sleepDuration (ReconnectionDelay (Config c1)))) w2) c1 = (w3, c3)"
    by (cases "discoverAgain (emit (Sleep (sleepDuration (ReconnectionDelay (Config c1)))) w2) c1")
  from discoverAgain_result [OF da] obtain ds' where
    ds': "trace w3 = trace w2 @ [Sleep (sleepDuration (ReconnectionDelay (Config c1)))] @ ds'"
      "set ds' \<subseteq> {DiscoverCall}" and up3: "upToEndpoint c1 c3"
    by (auto simp: trace_emit)
  have up: "upToEndpoint c c3"
    using up1 up3 upToEndpoint_trans by blast
  have disc3: "\<forall>d t. EndpointDiscoverer (Config c3) = Some d \<longrightarrow> snd (Discover d t) = None"
    using Suc.prems by (simp add: upToEndpoint_fields [OF up])
  from Suc.IH [OF disc3, of w3] obtain w' c' pre where
    rec: "connectWithRetries e w3 c3 (int n) =
            Inr (w', c', Some (RetryLimitReached (MaxReconnects (Config c3))))"
    and tr: "trace w' = trace w3 @ pre @
            map (dropEvent e c3 (fst (proto_Marshal e))) (tracked c3) @ [ResetTables]"
    and bt: "beats pre =
            concat (replicate n [Attempt, Wait (sleepDuration (ReconnectionDelay (Config c3)))])"
    and cs: "filter isChanSend pre = []"
    and tabs: "requests c' = Some Map.empty" "subscriptions c' = Some []"
    by blast
  let ?pre = "ds @ [ConnectAttempt (Address (Config c1)) (Port (Config c1))] @
      [Sleep (sleepDuration (ReconnectionDelay (Config c1)))] @ ds' @ pre"
  from df cn da rec have "connectWithRetries e w c (int (Suc n)) =
      Inr (w', c', Some (RetryLimitReached (MaxReconnects (Config c))))"
    by (subst connectWithRetries.simps) (simp add: upToEndpoint_fields [OF up])
  moreover have "trace w' = trace w @ ?pre @
      map (dropEvent e c (fst (proto_Marshal e))) (tracked c) @ [ResetTables]"
    using tr ds'(1) t2 ds(1) by (simp add: upToEndpoint_fields [OF up])
  moreover have "beats ?pre =
      concat (replicate (Suc n) [Attempt, Wait (sleepDuration (ReconnectionDelay (Config c)))])"
    using bt ds(2) ds'(2)
    by (simp add: beats_append beats_discover beats_Cons beats_Nil
          upToEndpoint_fields [OF up] upToEndpoint_fields [OF up1])
  moreover have "filter isChanSend ?pre = []"
    using cs ds(2) ds'(2) by (simp add: chanSends_discover)
  ultimately show ?case
    using tabs by blast
qed

lemma liveConn_facts:
  "MaxReconnects (Config liveConn) = 2"
  "sleepDuration (ReconnectionDelay (Config liveConn)) = 10000000000"
  "EndpointDiscoverer (Config liveConn) = None"
  "map (dropEvent refusingEnv liveConn (fst (proto_Marshal refusingEnv))) (tracked liveConn) =
     [ChanSend (Chan 2) (frame subscriptionDropped [8, 0] idB ''admin'' ''changeit'')]"
  "Mutex liveConn = False" "connected liveConn = True" "Socket liveConn = Some 3"
  by (simp_all add: liveConn_def localConfig_def NewConfiguration_def sleepDuration_def
        refusingEnv_def tracked_def dropEvent_def dropNotification_def)

lemma refusingEnv_facts:
  "\<forall>t a p s. dial refusingEnv t a p \<noteq> Dialed s"
  "snd (proto_Marshal refusingEnv) = None"
  by (simp_all add: refusingEnv_def)

text \<open>
  C2, as amended. For every \<open>N \<ge> 1\<close>: if every dial attempt fails, every call of the
  endpoint discoverer (when one is configured) succeeds, and the payload of the drop
  notification marshals, then \<^verbatim>\<open>connectWithRetries\<close> called with \<open>N\<close> remaining attempts
  makes exactly \<open>N\<close> attempts, each followed by a sleep of the configured reconnection
  delay, and sends on no channel while doing so; after the \<open>N\<close>th failure it closes
  the connection (one drop notification per tracked subscription, both tables reset)
  and returns the retry-limit error. \<^verbatim>\<open>Connect\<close>, with \<open>MaxReconnects = N\<close>, does the
  same after resetting the tables (so there is no subscription left to notify).
\<close>

theorem connectWithRetries_gives_up_after_N_attempts:
  assumes "1 \<le> N"
    and "\<forall>t a p s. dial e t a p \<noteq> Dialed s"
    and "\<forall>d t. EndpointDiscoverer (Config c) = Some d \<longrightarrow> snd (Discover d t) = None"
    and "snd (proto_Marshal e) = None"
  shows "(\<exists>w' c' pre.
            connectWithRetries e w c N =
              Inr (w', c', Some (RetryLimitReached (MaxReconnects (Config c)))) \<and>
            trace w' = trace w @ pre @
              map (dropEvent e c (fst (proto_Marshal e))) (tracked c) @ [ResetTables] \<and>
            beats pre =
              concat (replicate (nat N)
                [Attempt, Wait (sleepDuration (ReconnectionDelay (Config c)))]) \<and>
            filter isChanSend pre = [] \<and>
            requests c' = Some Map.empty \<and> subscriptions c' = Some []) \<and>
         (MaxReconnects (Config c) = N \<longrightarrow>
            (\<exists>w' c' pre.
               Connect e w c = Inr (w', c', Some (RetryLimitReached N)) \<and>
               trace w' = trace w @ ResetTables # pre @ [ResetTables] \<and>
               beats pre =
                 concat (replicate (nat N)
                   [Attempt, Wait (sleepDuration (ReconnectionDelay (Config c)))]) \<and>
               filter isChanSend pre = [] \<and>
               requests c' = Some Map.empty \<and> subscriptions c' = Some []))"
proof (intro conjI impI)
  from assms(1) have N: "N = int (nat N)" by simp
  show "\<exists>w' c' pre.
            connectWithRetries e w c N =
              Inr (w', c', Some (RetryLimitReached (MaxReconnects (Config c)))) \<and>
            trace w' = trace w @ pre @
              map (dropEvent e c (fst (proto_Marshal e))) (tracked c) @ [ResetTables] \<and>
            beats pre =
              concat (replicate (nat N)
                [Attempt, Wait (sleepDuration (ReconnectionDelay (Config c)))]) \<and>
            filter isChanSend pre = [] \<and>
            requests c' = Some Map.empty \<and> subscriptions c' = Some []"
    using connectWithRetries_exhausts [OF assms(2-4), of w "nat N"] N by simp
next
  assume max: "MaxReconnects (Config c) = N"
  let ?c0 = "c\<lparr>requests := Some Map.empty, subscriptions := Some []\<rparr>"
  from assms(1) have N: "N = int (nat N)" by simp
  have disc0: "\<forall>d t. EndpointDiscoverer (Config ?c0) = Some d \<longrightarrow> snd (Discover d t) = None"
    using assms(3) by simp
  from connectWithRetries_exhausts [OF assms(2) disc0 assms(4), of "emit ResetTables w" "nat N"]
  show "\<exists>w' c' pre.
               Connect e w c = Inr (w', c', Some (RetryLimitReached N)) \<and>
               trace w' = trace w @ ResetTables # pre @ [ResetTables] \<and>
               beats pre =
                 concat (replicate (nat N)
                   [Attempt, Wait (sleepDuration (ReconnectionDelay (Config c)))]) \<and>
               filter isChanSend pre = [] \<and>
               requests c' = Some Map.empty \<and> subscriptions c' = Some []"
    using N max by (simp add: Connect_def trace_emit tracked_def)
qed

theorem connectWithRetries_gives_up_after_N_attempts_witness:
  "1 \<le> (2 :: int) \<and>
   dial refusingEnv = (\<lambda>t a p. DialError ''connection refused'') \<and>
   EndpointDiscoverer (Config liveConn) = None \<and>
   snd (proto_Marshal refusingEnv) = None \<and>
   (\<exists>w' c' pre.
      connectWithRetries refusingEnv startWorld liveConn 2 =
        Inr (w', c', Some (RetryLimitReached 2)) \<and>
      trace w' = pre @
        [ChanSend (Chan 2) (frame subscriptionDropped [8, 0] idB ''admin'' ''changeit''),
         ResetTables] \<and>
      beats pre = [Attempt, Wait 10000000000, Attempt, Wait 10000000000] \<and>
      filter isChanSend pre = [] \<and>
      requests c' = Some Map.empty \<and> subscriptions c' = Some []) \<and>
   MaxReconnects (Config liveConn) = 2 \<and>
   (\<exists>w' c' pre.
      Connect refusingEnv startWorld liveConn = Inr (w', c', Some (RetryLimitReached 2)) \<and>
      trace w' = ResetTables # pre @ [ResetTables] \<and>
      beats pre = [Attempt, Wait 10000000000, Attempt, Wait 10000000000] \<and>
      filter isChanSend pre = [] \<and>
      requests c' = Some Map.empty \<and> subscriptions c' = Some [])"
proof -
  have h1: "1 \<le> (2 :: int)" by simp
  have h3: "\<forall>d t. EndpointDiscoverer (Config liveConn) = Some d \<longrightarrow> snd (Discover d t) = None"
    by (simp add: liveConn_facts)
  have two: "concat (replicate (nat 2) [Attempt, Wait 10000000000]) =
      [Attempt, Wait 10000000000, Attempt, Wait 10000000000]"
    by (simp add: numeral_2_eq_2)
  have start: "trace startWorld = []"
    by (simp add: startWorld_def)
  from connectWithRetries_gives_up_after_N_attempts
    [OF h1 refusingEnv_facts(1) h3 refusingEnv_facts(2), of startWorld]
  show ?thesis
    using h1 refusingEnv_facts
    by (simp only: liveConn_facts two start append_Nil) (simp add: refusingEnv_def)
qed

text \<open>
  C2 as stated fails when an endpoint discoverer is configured and does not find a
  node: with a limit of 2 and a network that refuses every dial, \<^verbatim>\<open>Connect\<close> makes no
  attempt at all and returns the discoverer's error, not the retry-limit error.
\<close>

theorem Connect_stops_at_failed_discovery:
  "MaxReconnects (Config lostConn) = 2 \<and>
   Connect refusingEnv startWorld lostConn =
     Inr (\<lparr>clock = 1, trace = [ResetTables, DiscoverCall]\<rparr>,
          lostConn\<lparr>requests := Some Map.empty, subscriptions := Some []\<rparr>,
          Some (ExternalError ''no members'')) \<and>
   beats [ResetTables, DiscoverCall] = []"
  by (simp add: Connect_def connectWithRetries.simps [of _ _ _ 2] discoverFirst_def
        lostConn_def lostDiscoverer_def liveConn_def localConfig_def NewConfiguration_def
        startWorld_def emit_def tick_def beats_def)

subsection \<open>End of stream\<close>

lemma Close_succeeds:
  assumes "\<not> Mutex c" and "Socket c = Some s" and "snd (proto_Marshal e) = None"
  shows "\<exists>w1. Close e w c =
           Inr (w1, c\<lparr>connected := False, Socket := None,
                      requests := Some Map.empty, subscriptions := Some []\<rparr>,
                socket_Close e (clock w)) \<and>
           trace w1 = trace w @ SocketClose s #
             map (dropEvent e c (fst (proto_Marshal e))) (tracked c) @ [ResetTables]"
  using assms
  by (cases "proto_Marshal e")
     (simp add: Close_def Let_def closeConnection_def trace_emit trace_tick
        trace_dropSubscriptions tracked_def dropEvent_def dropNotification_def)

text \<open>
  C5, as amended. When a read returns end-of-stream on a connection marked
  connected, the reader closes the connection (the socket is closed, every tracked
  subscription is sent one drop notification, both tables are reset) and then runs
  \<^verbatim>\<open>connectWithRetries\<close> with the configured maximum, which makes at most that many
  attempts. The requests that were pending are not failed: apart from the drop
  notifications to the subscriptions nothing is sent on any channel, and the entries
  of the requests table are discarded.
\<close>

theorem reader_EOF_closes_and_reconnects:
  assumes "connected c" and "\<not> Mutex c" and "Socket c = Some s"
    and "snd (proto_Marshal e) = None"
  shows "\<exists>w' c' evs.
           readFromSocket e w c (ReadError ''EOF'' # rest) = Inr (w', c') \<and>
           trace w' = trace w @ SocketClose s #
             map (dropEvent e c (fst (proto_Marshal e))) (tracked c) @ ResetTables # evs \<and>
           filter isChanSend evs = [] \<and>
           count_list (beats evs) Attempt \<le> nat (MaxReconnects (Config c)) \<and>
           requests c' = Some Map.empty"
proof -
  let ?c1 = "c\<lparr>connected := False, Socket := None,
               requests := Some Map.empty, subscriptions := Some []\<rparr>"
  from Close_succeeds [OF assms(2-4)] obtain w1 where
    cl: "Close e w c = Inr (w1, ?c1, socket_Close e (clock w))" and
    t1: "trace w1 = trace w @ SocketClose s #
           map (dropEvent e c (fst (proto_Marshal e))) (tracked c) @ [ResetTables]"
    by blast
  from connectWithRetries_returns [OF assms(4)] obtain w2 c2 err where
    cw: "connectWithRetries e w1 ?c1 (MaxReconnects (Config ?c1)) = Inr (w2, c2, err)"
    by blast
  from connectWithRetries_shape [OF cw] obtain evs where
    t2: "trace w2 = trace w1 @ evs" and
    n: "count_list (beats evs) Attempt \<le> nat (MaxReconnects (Config c))" and
    quiet: "filter isChanSend evs = []" and tab: "requests c2 = Some Map.empty"
    by (auto simp: tracked_def)
  have "readFromSocket e w c (ReadError ''EOF'' # rest) = Inr (w2, c2)"
    using assms(1-3) cl cw by (subst readFromSocket.simps) (simp add: readFailed_def)
  with t1 t2 n quiet tab show ?thesis
    by simp
qed

theorem reader_EOF_closes_and_reconnects_witness:
  "connected liveConn \<and> \<not> Mutex liveConn \<and> Socket liveConn = Some 3 \<and>
   snd (proto_Marshal refusingEnv) = None \<and>
   (\<exists>w' c' evs.
      readFromSocket refusingEnv startWorld liveConn [ReadError ''EOF''] = Inr (w', c') \<and>
      trace w' = SocketClose 3 #
        ChanSend (Chan 2) (frame subscriptionDropped [8, 0] idB ''admin'' ''changeit'') #
        ResetTables # evs \<and>
      filter isChanSend evs = [] \<and>
      count_list (beats evs) Attempt \<le> 2 \<and>
      requests c' = Some Map.empty)"
proof -
  have h1: "connected liveConn" and h2: "\<not> Mutex liveConn"
    by (simp_all add: liveConn_facts)
  have start: "trace startWorld = []"
    by (simp add: startWorld_def)
  from reader_EOF_closes_and_reconnects
    [OF h1 h2 liveConn_facts(7) refusingEnv_facts(2), of startWorld "[]"]
  show ?thesis
    using h1 h2 liveConn_facts(7) refusingEnv_facts(2)
    by (simp only: liveConn_facts start append_Nil) simp
qed

text \<open>
  C5 as stated fails: a request is pending on channel 1, the read returns
  end-of-stream, and the reader sends one frame, to the subscription on channel 2;
  nothing is sent on channel 1, and the entry is gone from the requests table.
\<close>

theorem pending_request_gets_nothing_at_EOF:
  "lookupRequest liveConn (UUID idA) = Some (Chan 1) \<and>
   readFromSocket refusingEnv startWorld liveConn [ReadError ''EOF''] =
     Inr (\<lparr>clock = 3,
            trace = [SocketClose 3,
                     ChanSend (Chan 2) (frame subscriptionDropped [8, 0] idB ''admin'' ''changeit''),
                     ResetTables,
                     ConnectAttempt ''127.0.0.1'' 1113, Sleep 10000000000,
                     ConnectAttempt ''127.0.0.1'' 1113, Sleep 10000000000,
                     ResetTables]\<rparr>,
          liveConn\<lparr>connected := False, Socket := None,
                    requests := Some Map.empty, subscriptions := Some []\<rparr>) \<and>
   lookupRequest (liveConn\<lparr>connected := False, Socket := None,
                    requests := Some Map.empty, subscriptions := Some []\<rparr>) (UUID idA) = None"
proof -
  let ?c1 = "liveConn\<lparr>connected := False, Socket := None,
                    requests := Some Map.empty, subscriptions := Some []\<rparr>"
  let ?w1 = "\<lparr>clock = 1, trace = [SocketClose 3,
             ChanSend (Chan 2) (frame subscriptionDropped [8, 0] idB ''admin'' ''changeit''),
             ResetTables]\<rparr>"
  have cl: "Close refusingEnv startWorld liveConn = Inr (?w1, ?c1, None)"
    by (simp add: Close_def closeConnection_def liveConn_def refusingEnv_def startWorld_def
          tracked_def dropNotification_def tick_def emit_def Let_def)
  have cw: "connectWithRetries refusingEnv ?w1 ?c1 2 =
     Inr (\<lparr>clock = 3,
            trace = [SocketClose 3,
                     ChanSend (Chan 2) (frame subscriptionDropped [8, 0] idB ''admin'' ''changeit''),
                     ResetTables,
                     ConnectAttempt ''127.0.0.1'' 1113, Sleep 10000000000,
                     ConnectAttempt ''127.0.0.1'' 1113, Sleep 10000000000,
                     ResetTables]\<rparr>, ?c1, Some (RetryLimitReached 2))"
    by (simp add: connectWithRetries.simps [of _ _ _ 2] connectWithRetries.simps [of _ _ _ 1]
          connectWithRetries.simps [of _ _ _ 0] discoverFirst_def discoverAgain_def
          connect_def closeConnection_def liveConn_def localConfig_def NewConfiguration_def
          refusingEnv_def tracked_def sleepDuration_def tick_def emit_def Let_def)
  have "readFromSocket refusingEnv startWorld liveConn [ReadError ''EOF''] =
     Inr (\<lparr>clock = 3,
            trace = [SocketClose 3,
                     ChanSend (Chan 2) (frame subscriptionDropped [8, 0] idB ''admin'' ''changeit''),
                     ResetTables,
                     ConnectAttempt ''127.0.0.1'' 1113, Sleep 10000000000,
                     ConnectAttempt ''127.0.0.1'' 1113, Sleep 10000000000,
                     ResetTables]\<rparr>, ?c1)"
    by (subst readFromSocket.simps)
       (simp add: readFailed_def cl liveConn_facts cw [simplified]  liveConn_facts)
  then show ?thesis
    by (simp add: lookupRequest_def liveConn_def)
qed

end
